theory Spec2Isabelle
  imports Main
begin

section \<open>JavaScript values used by the wallet\<close>

text \<open>
  Thrown exceptions are values: the constructor is the JavaScript error class, the string
  its message (the UI handlers concatenate the message into the status line).
\<close>

datatype error = RangeError string | TypeError string | SyntaxError string | Error string

fun message :: "error \<Rightarrow> string" where
  "message (RangeError m) = m"
| "message (TypeError m) = m"
| "message (SyntaxError m) = m"
| "message (Error m) = m"

text \<open>Sequencing of steps that may throw: the first thrown error aborts the rest.\<close>

definition bind :: "error + 'a \<Rightarrow> ('a \<Rightarrow> error + 'b) \<Rightarrow> error + 'b" where
  "bind m f = (case m of Inl e \<Rightarrow> Inl e | Inr x \<Rightarrow> f x)"

subsection \<open>Numbers (IEEE 754 binary64) and bigints\<close>

text \<open>
  A bigint is an \<open>int\<close>. A JavaScript Number is a double: \<open>Finite m e\<close> denotes the
  value \<open>m * 2 ^ e\<close> (the sign is the sign of \<open>m\<close>; the sign of zero is not kept, no
  operation of the wallet observes it), \<open>Infinity neg\<close> is plus or minus infinity.
\<close>

datatype number = Finite int int | Infinity bool | NaN

text \<open>Number of binary digits of a positive integer.\<close>

function bits :: "int \<Rightarrow> int" where
  "bits n = (if n \<le> 0 then 0 else 1 + bits (n div 2))"
  by pat_completeness auto
termination
  by (relation "measure nat") auto

declare bits.simps [simp del]

text \<open>The integer nearest to \<open>a / b\<close>, ties to even (\<open>0 \<le> a\<close>, \<open>0 < b\<close>).\<close>

definition nearest_even :: "int \<Rightarrow> int \<Rightarrow> int" where
  "nearest_even a b =
     (let q = a div b; r = a mod b
      in if 2 * r < b then q
         else if b < 2 * r then q + 1
         else if even q then q else q + 1)"

text \<open>\<open>\<lfloor>log\<^sub>2 (a / b)\<rfloor>\<close> for \<open>0 < a\<close>, \<open>0 < b\<close>.\<close>

definition binade :: "int \<Rightarrow> int \<Rightarrow> int" where
  "binade a b =
     (let d = bits a - bits b
      in if (if 0 \<le> d then b * 2 ^ nat d \<le> a else b \<le> a * 2 ^ nat (- d)) then d else d - 1)"

text \<open>
  The double nearest to \<open>\<plusminus> a / b\<close> (round to nearest, ties to even): a 53-bit
  significand, exponents from \<open>-1074\<close> (subnormals) and overflow to infinity.
\<close>

definition to_double :: "bool \<Rightarrow> int \<Rightarrow> int \<Rightarrow> number" where
  "to_double neg a b =
     (if a = 0 then Finite 0 0
      else
        let e = max (binade a b - 52) (- 1074);
            m = (if 0 \<le> e then nearest_even a (b * 2 ^ nat e)
                 else nearest_even (a * 2 ^ nat (- e)) b)
        in if 971 < e \<or> (e = 971 \<and> 2 ^ 53 \<le> m) then Infinity neg
           else Finite (if neg then - m else m) e)"

text \<open>\<open>x * y\<close> on Numbers: the exact product, rounded.\<close>

fun number_times :: "number \<Rightarrow> number \<Rightarrow> number" where
  "number_times NaN _ = NaN"
| "number_times _ NaN = NaN"
| "number_times (Finite m1 e1) (Finite m2 e2) =
     (let p = m1 * m2; e = e1 + e2
      in if 0 \<le> e then to_double (p < 0) (\<bar>p\<bar> * 2 ^ nat e) 1
         else to_double (p < 0) \<bar>p\<bar> (2 ^ nat (- e)))"
| "number_times (Finite m e) (Infinity s) = (if m = 0 then NaN else Infinity (s \<noteq> (m < 0)))"
| "number_times (Infinity s) (Finite m e) = (if m = 0 then NaN else Infinity (s \<noteq> (m < 0)))"
| "number_times (Infinity s) (Infinity t) = Infinity (s \<noteq> t)"

text \<open>\<open>Number(n)\<close> for a bigint \<open>n\<close>.\<close>

definition Number :: "int \<Rightarrow> number" where
  "Number n = to_double (n < 0) \<bar>n\<bar> 1"

text \<open>\<open>x \<le> y\<close> on finite Numbers, compared exactly at the smaller exponent.\<close>

definition finite_le :: "int \<Rightarrow> int \<Rightarrow> int \<Rightarrow> int \<Rightarrow> bool" where
  "finite_le m1 e1 m2 e2 =
     (let e = min e1 e2 in m1 * 2 ^ nat (e1 - e) \<le> m2 * 2 ^ nat (e2 - e))"

text \<open>\<open>Math.max(x, y)\<close>: NaN if either argument is NaN, else the larger.\<close>

fun Math_max :: "number \<Rightarrow> number \<Rightarrow> number" where
  "Math_max NaN _ = NaN"
| "Math_max _ NaN = NaN"
| "Math_max (Finite m1 e1) (Finite m2 e2) =
     (if finite_le m1 e1 m2 e2 then Finite m2 e2 else Finite m1 e1)"
| "Math_max (Finite m e) (Infinity s) = (if s then Finite m e else Infinity s)"
| "Math_max (Infinity s) (Finite m e) = (if s then Finite m e else Infinity s)"
| "Math_max (Infinity s) (Infinity t) = Infinity (s \<and> t)"

text \<open>
  \<open>BigInt(x)\<close> for a Number \<open>x\<close>: throws a RangeError unless \<open>x\<close> is an integral
  Number (NaN, the infinities and every value with a fractional part throw).
\<close>

definition not_an_integer :: string where
  "not_an_integer = ''The number cannot be converted to a BigInt because it is not an integer''"

fun BigInt :: "number \<Rightarrow> error + int" where
  "BigInt NaN = Inl (RangeError not_an_integer)"
| "BigInt (Infinity s) = Inl (RangeError not_an_integer)"
| "BigInt (Finite m e) =
     (if 0 \<le> e then Inr (m * 2 ^ nat e)
      else if 2 ^ nat (- e) dvd m then Inr (m div 2 ^ nat (- e))
      else Inl (RangeError not_an_integer))"

subsection \<open>\<open>parseFloat\<close>\<close>

definition is_digit :: "char \<Rightarrow> bool" where
  "is_digit c = (48 \<le> (of_char c :: nat) \<and> (of_char c :: nat) \<le> 57)"

definition is_space :: "char \<Rightarrow> bool" where
  "is_space c = ((of_char c :: nat) \<in> {9, 10, 11, 12, 13, 32})"

definition digits_value :: "string \<Rightarrow> int" where
  "digits_value ds = foldl (\<lambda>acc c. 10 * acc + (of_char c - 48)) 0 ds"

text \<open>
  The exponent part \<open>e\<close>, \<open>E\<close>, an optional sign and at least one digit; when the digits
  are missing the exponent part is not part of the literal and the exponent is 0.
\<close>

definition exponent_part :: "string \<Rightarrow> int" where
  "exponent_part s =
     (case s of
        [] \<Rightarrow> 0
      | c # r \<Rightarrow>
          if c = CHR ''e'' \<or> c = CHR ''E'' then
            (let neg = (case r of [] \<Rightarrow> False | d # _ \<Rightarrow> d = CHR ''-'');
                 r' = (case r of [] \<Rightarrow> []
                       | d # t \<Rightarrow> if d = CHR ''-'' \<or> d = CHR ''+'' then t else r);
                 ds = takeWhile is_digit r'
             in if ds = [] then 0 else if neg then - digits_value ds else digits_value ds)
          else 0)"

text \<open>
  \<open>parseFloat(s)\<close>: leading white space is skipped, then the longest prefix that is a
  decimal literal (sign, \<open>Infinity\<close> or digits with an optional fraction and exponent)
  is converted to the nearest double; NaN when there is none. Characters are bytes here,
  so of the white space only the ASCII characters are skipped.
\<close>

definition parseFloat :: "string \<Rightarrow> number" where
  "parseFloat s =
     (let s1 = dropWhile is_space s;
          neg = (case s1 of [] \<Rightarrow> False | c # _ \<Rightarrow> c = CHR ''-'');
          s2 = (case s1 of [] \<Rightarrow> []
                | c # t \<Rightarrow> if c = CHR ''-'' \<or> c = CHR ''+'' then t else s1)
      in if take 8 s2 = ''Infinity'' then Infinity neg
         else
           let ip = takeWhile is_digit s2;
               r1 = dropWhile is_digit s2;
               dot = (case r1 of [] \<Rightarrow> False | c # _ \<Rightarrow> c = CHR ''.'');
               fp = (if dot then takeWhile is_digit (tl r1) else []);
               r2 = (if dot then dropWhile is_digit (tl r1) else r1)
           in if ip = [] \<and> fp = [] then NaN
              else
                let n = digits_value (ip @ fp);
                    k = exponent_part r2 - int (length fp)
                in if 0 \<le> k then to_double neg (n * 10 ^ nat k) 1
                   else to_double neg n (10 ^ nat (- k)))"

section \<open>The page: conversion of the amount field\<close>

text \<open>
  \<open>const amountInWei = BigInt(parseFloat(amount) * 1000000)\<close>
\<close>

definition amountInWei :: "string \<Rightarrow> error + int" where
  "amountInWei amount = BigInt (number_times (parseFloat amount) (Finite 1000000 0))"

section \<open>Hex strings and packed encoding (viem)\<close>

text \<open>
  Byte strings are hex strings \<open>0x...\<close>, two hex digits a byte, as in the source.
\<close>

definition is_hex_digit :: "char \<Rightarrow> bool" where
  "is_hex_digit c =
     (let n = (of_char c :: nat)
      in (48 \<le> n \<and> n \<le> 57) \<or> (97 \<le> n \<and> n \<le> 102) \<or> (65 \<le> n \<and> n \<le> 70))"

definition hex_value :: "char \<Rightarrow> int" where
  "hex_value c =
     (let n = (of_char c :: int)
      in if n \<le> 57 then n - 48 else if 97 \<le> n then n - 87 else n - 55)"

definition hex_digit :: "int \<Rightarrow> char" where
  "hex_digit n = ''0123456789abcdef'' ! nat n"

text \<open>\<open>n.toString(16)\<close> for \<open>0 \<le> n\<close>.\<close>

function hex_of :: "int \<Rightarrow> string" where
  "hex_of n = (if n < 16 then [hex_digit n] else hex_of (n div 16) @ [hex_digit (n mod 16)])"
  by pat_completeness auto
termination
  by (relation "measure nat") auto

declare hex_of.simps [simp del]

text \<open>\<open>s.replace('0x', '')\<close>: the first occurrence is removed.\<close>

fun remove0x :: "string \<Rightarrow> string" where
  "remove0x (a # b # r) = (if a = CHR ''0'' \<and> b = CHR ''x'' then r else a # remove0x (b # r))"
| "remove0x s = s"

definition toLowerCase :: "string \<Rightarrow> string" where
  "toLowerCase s =
     map (\<lambda>c. if 65 \<le> (of_char c :: nat) \<and> (of_char c :: nat) \<le> 90
               then char_of ((of_char c :: nat) + 32) else c) s"

text \<open>
  \<open>hexToBigInt(hex)\<close> is \<open>BigInt(hex)\<close> on a value of type \<open>`0x${string}`\<close>: a
  SyntaxError unless hex digits follow the prefix.
\<close>

definition hexToBigInt :: "string \<Rightarrow> error + int" where
  "hexToBigInt hex =
     (if take 2 hex = ''0x'' \<and> drop 2 hex \<noteq> [] \<and> list_all is_hex_digit (drop 2 hex)
      then Inr (foldl (\<lambda>acc c. 16 * acc + hex_value c) 0 (drop 2 hex))
      else Inl (SyntaxError ''Cannot convert to a BigInt''))"

text \<open>\<open>numberToHex(value, { size })\<close>, unsigned: \<open>size\<close> bytes, left-padded with zeros.\<close>

definition numberToHex :: "nat \<Rightarrow> int \<Rightarrow> error + string" where
  "numberToHex sz v =
     (if 2 ^ (8 * sz) - 1 < v \<or> v < 0 then Inl (Error ''IntegerOutOfRangeError'')
      else Inr (''0x'' @ replicate (2 * sz - length (hex_of v)) (CHR ''0'') @ hex_of v))"

text \<open>
  \<open>isAddress\<close>: the shape \<open>0x\<close> and 40 hex digits. (The EIP-55 checksum of a
  mixed-case address is a hash and is not modelled.)
\<close>

definition isAddress :: "string \<Rightarrow> bool" where
  "isAddress a = (take 2 a = ''0x'' \<and> length a = 42 \<and> list_all is_hex_digit (drop 2 a))"

text \<open>The packed encoding of one value of type \<open>uintN\<close> (N = 8 * sz), \<open>address\<close>, \<open>bytes\<close>.\<close>

datatype packed = Uint nat int | Address string | Bytes string

fun encode :: "packed \<Rightarrow> error + string" where
  "encode (Address a) =
     (if isAddress a then Inr (toLowerCase a) else Inl (Error ''InvalidAddressError''))"
| "encode (Bytes b) = Inr b"
| "encode (Uint sz v) = numberToHex sz v"

text \<open>\<open>encodePacked\<close>: the encodings in order, concatenated by \<open>concatHex\<close>.\<close>

fun encode_all :: "packed list \<Rightarrow> error + string list" where
  "encode_all [] = Inr []"
| "encode_all (p # ps) = bind (encode p) (\<lambda>h. bind (encode_all ps) (\<lambda>hs. Inr (h # hs)))"

definition concatHex :: "string list \<Rightarrow> string" where
  "concatHex hs = ''0x'' @ foldl (\<lambda>acc x. acc @ remove0x x) [] hs"

definition encodePacked :: "packed list \<Rightarrow> error + string" where
  "encodePacked ps = bind (encode_all ps) (\<lambda>hs. Inr (concatHex hs))"

section \<open>The transfer service\<close>

definition ARBITRUM_SEPOLIA_USDC :: string where
  "ARBITRUM_SEPOLIA_USDC = ''0x75faf114eafb1BDbe2F0316DF893fd58CE46AA4d''"

definition ARBITRUM_SEPOLIA_PAYMASTER :: string where
  "ARBITRUM_SEPOLIA_PAYMASTER = ''0x7C5D876b446F3F1F08E2d3513D9062e681c4388C''"

text \<open>The max amount allowed to be paid per user op: 1 USDC.\<close>

definition MAX_GAS_USDC :: int where
  "MAX_GAS_USDC = 1000000"

record owner_account =
  owner_address :: string
  owner_privateKey :: string

record smart_account =
  sa_address :: string
  sa_owners :: "owner_account list"
  sa_version :: string

record permit =
  permit_owner :: string
  permit_spender :: string
  permit_value :: int

record call =
  call_to :: string
  call_functionName :: string
  call_args :: "string \<times> int"

record gas_estimate =
  callGasLimit :: int
  preVerificationGas :: int
  verificationGasLimit :: int
  paymasterPostOpGasLimit :: int
  paymasterVerificationGasLimit :: int

text \<open>The argument of \<open>estimateUserOperationGas\<close>.\<close>

record estimate_request =
  est_account :: smart_account
  est_calls :: "call list"
  est_paymaster :: string
  est_paymasterData :: string
  est_paymasterPostOpGasLimit :: int
  est_maxFeePerGas :: int
  est_maxPriorityFeePerGas :: int

text \<open>The argument of \<open>sendUserOperation\<close>.\<close>

record user_operation =
  op_account :: smart_account
  op_calls :: "call list"
  op_callGasLimit :: int
  op_preVerificationGas :: int
  op_verificationGasLimit :: int
  op_paymaster :: string
  op_paymasterData :: string
  op_paymasterVerificationGasLimit :: int
  op_paymasterPostOpGasLimit :: int
  op_maxFeePerGas :: int
  op_maxPriorityFeePerGas :: int

record receipt =
  success :: bool
  actualGasUsed :: int
  actualGasCost :: int
  transactionHash :: string
  gasUsed :: int

text \<open>
  The external collaborators: key generation, the account library, the RPC endpoint and the
  bundler. Every call that the source awaits may reject, so it returns \<open>error + _\<close>.
  \<open>'w\<close> is the state of the chain as the endpoint answers for it: every call that goes
  to the network takes it (the derivation of the smart account is given the RPC client and
  reads the address from the network), and submitting an operation and waiting for its
  receipt return the state after.
\<close>

record 'w env =
  randomPrivateKey :: "int list"
  privateKeyToAccount :: "string \<Rightarrow> error + owner_account"
  toEcdsaKernelSmartAccount ::
    "'w \<Rightarrow> owner_account list \<Rightarrow> string \<Rightarrow> error + smart_account"
  signTypedData :: "smart_account \<Rightarrow> permit \<times> string \<Rightarrow> error + string"
  parseErc6492Signature :: "string \<Rightarrow> error + string"
  call_additionalGasCharge :: "'w \<Rightarrow> string \<Rightarrow> error + string option option"
  getUserOperationGasPrice :: "'w \<Rightarrow> error + string \<times> string"
  estimateUserOperationGas :: "'w \<Rightarrow> estimate_request \<Rightarrow> error + gas_estimate"
  sendUserOperation :: "'w \<Rightarrow> user_operation \<Rightarrow> error + string \<times> 'w"
  waitForUserOperationReceipt :: "'w \<Rightarrow> string \<Rightarrow> error + receipt \<times> 'w"
  balanceOf :: "'w \<Rightarrow> string \<Rightarrow> string \<Rightarrow> error + int"

text \<open>
  Modelled from the spec: \<open>eip2612Permit\<close> of \<open>./permit-helpers\<close>, which is not among
  the sources. The spec (4.2, step 3): "Construct an EIP-2612 permit: owner = smart account
  address, spender = fixed paymaster address, value = fixed sponsorship ceiling".
\<close>

definition eip2612Permit :: "string \<Rightarrow> string \<Rightarrow> string \<Rightarrow> int \<Rightarrow> error + permit" where
  "eip2612Permit token ownerAddress spenderAddress value =
     Inr \<lparr>permit_owner = ownerAddress, permit_spender = spenderAddress, permit_value = value\<rparr>"

text \<open>"Create accounts": the owner from the key, the smart account from the owner.\<close>

definition create_accounts ::
  "'w env \<Rightarrow> 'w \<Rightarrow> string \<Rightarrow> error + owner_account \<times> smart_account" where
  "create_accounts env w privateKey =
     bind (privateKeyToAccount env privateKey) (\<lambda>owner.
     bind (toEcdsaKernelSmartAccount env w [owner] ''0.3.1'') (\<lambda>account.
     Inr (owner, account)))"

text \<open>
  \<open>(await client.call(...) ?? { data: '0x0' }).data\<close> passed to \<open>hexToBigInt\<close>: a
  nullish result is replaced, an undefined \<open>data\<close> makes \<open>BigInt\<close> throw a TypeError.
\<close>

definition additionalGasCharge_of :: "string option option \<Rightarrow> error + int" where
  "additionalGasCharge_of r =
     (case r of
        None \<Rightarrow> hexToBigInt ''0x0''
      | Some None \<Rightarrow> Inl (TypeError ''Cannot convert undefined to a BigInt'')
      | Some (Some d) \<Rightarrow> hexToBigInt d)"

text \<open>
  \<open>transferUSDC\<close> in two parts. The first runs from the top of the function to the
  argument of \<open>sendUserOperation\<close>; besides that argument it keeps the values the
  function has computed on the way (the account, the permit, and what it writes to the
  console: permit signature, additional gas charge, estimate).
\<close>

record prepared =
  prep_account :: smart_account
  prep_permit :: permit
  prep_permitSignature :: string
  prep_additionalGasCharge :: int
  prep_estimate :: gas_estimate
  prep_userOp :: user_operation

definition prepare_userOp ::
  "'w env \<Rightarrow> 'w \<Rightarrow> string \<Rightarrow> string \<Rightarrow> int \<Rightarrow> error + prepared" where
  "prepare_userOp env w privateKey recipientAddress amount =
     bind (create_accounts env w privateKey) (\<lambda>(owner, account).
     bind (eip2612Permit ARBITRUM_SEPOLIA_USDC (sa_address account)
             ARBITRUM_SEPOLIA_PAYMASTER MAX_GAS_USDC) (\<lambda>permitData.
     bind (signTypedData env account (permitData, ''Permit'')) (\<lambda>wrappedPermitSignature.
     bind (parseErc6492Signature env wrappedPermitSignature) (\<lambda>permitSignature.
     let calls = [\<lparr>call_to = ARBITRUM_SEPOLIA_USDC, call_functionName = ''transfer'',
                   call_args = (recipientAddress, amount)\<rparr>];
         paymaster = ARBITRUM_SEPOLIA_PAYMASTER
     in
     bind (encodePacked [Uint 1 0, Address ARBITRUM_SEPOLIA_USDC, Uint 32 MAX_GAS_USDC,
                         Bytes permitSignature]) (\<lambda>paymasterData.
     bind (call_additionalGasCharge env w paymaster) (\<lambda>r.
     bind (additionalGasCharge_of r) (\<lambda>additionalGasCharge.
     bind (getUserOperationGasPrice env w) (\<lambda>(feeMax, feePriority).
     bind (hexToBigInt feeMax) (\<lambda>maxFeePerGas.
     bind (hexToBigInt feePriority) (\<lambda>maxPriorityFeePerGas.
     bind (estimateUserOperationGas env w
             \<lparr>est_account = account, est_calls = calls, est_paymaster = paymaster,
              est_paymasterData = paymasterData,
              est_paymasterPostOpGasLimit = additionalGasCharge,
              est_maxFeePerGas = 1, est_maxPriorityFeePerGas = 1\<rparr>) (\<lambda>est.
     bind (BigInt (Math_max (Number (paymasterPostOpGasLimit est))
                            (Number additionalGasCharge))) (\<lambda>postOpGasLimit.
     Inr \<lparr>prep_account = account, prep_permit = permitData,
          prep_permitSignature = permitSignature,
          prep_additionalGasCharge = additionalGasCharge, prep_estimate = est,
          prep_userOp =
            \<lparr>op_account = account, op_calls = calls,
             op_callGasLimit = callGasLimit est,
             op_preVerificationGas = preVerificationGas est,
             op_verificationGasLimit = verificationGasLimit est,
             op_paymaster = paymaster, op_paymasterData = paymasterData,
             op_paymasterVerificationGasLimit = paymasterVerificationGasLimit est,
             op_paymasterPostOpGasLimit = postOpGasLimit,
             op_maxFeePerGas = maxFeePerGas,
             op_maxPriorityFeePerGas = maxPriorityFeePerGas\<rparr>\<rparr>))))))))))))"

text \<open>
  The second part submits, waits for the receipt and computes the USDC consumed. The
  function returns the receipt; a run also shows what was prepared, the \<open>USDC paid\<close>
  amount written to the console (before formatting) and the chain after.
\<close>

record 'w transfer_run =
  run_receipt :: receipt
  run_prepared :: prepared
  run_usdcConsumed :: int
  run_chain :: 'w

definition transferUSDC ::
  "'w env \<Rightarrow> 'w \<Rightarrow> string \<Rightarrow> string \<Rightarrow> int \<Rightarrow> error + 'w transfer_run" where
  "transferUSDC env w privateKey recipientAddress amount =
     bind (prepare_userOp env w privateKey recipientAddress amount) (\<lambda>p.
     bind (sendUserOperation env w (prep_userOp p)) (\<lambda>(userOpHash, w1).
     bind (waitForUserOperationReceipt env w1 userOpHash) (\<lambda>(userOpReceipt, w2).
     bind (balanceOf env w2 ARBITRUM_SEPOLIA_USDC (sa_address (prep_account p)))
       (\<lambda>usdcBalanceBefore.
     bind (balanceOf env w2 ARBITRUM_SEPOLIA_USDC (sa_address (prep_account p)))
       (\<lambda>usdcBalanceAfter.
     let usdcConsumed = usdcBalanceBefore - usdcBalanceAfter - amount
     in Inr \<lparr>run_receipt = userOpReceipt, run_prepared = p,
             run_usdcConsumed = usdcConsumed, run_chain = w2\<rparr>)))))"

section \<open>The page\<close>

text \<open>\<open>generatePrivateKey()\<close> is \<open>toHex\<close> of 32 random bytes.\<close>

definition bytesToHex :: "int list \<Rightarrow> string" where
  "bytesToHex bs = ''0x'' @ concat (map (\<lambda>b. [hex_digit (b div 16), hex_digit (b mod 16)]) bs)"

definition generatePrivateKey :: "'w env \<Rightarrow> string" where
  "generatePrivateKey env = bytesToHex (randomPrivateKey env)"

text \<open>The cached credential \<open>{ address, owner, privateKey }\<close> and the component's state.\<close>

record cached_account =
  acc_address :: string
  acc_owner :: string
  acc_privateKey :: string

record ui_state =
  ui_loading :: bool
  ui_account :: "cached_account option"
  ui_balance :: string
  ui_recipientAddress :: string
  ui_amount :: string
  ui_status :: string
  ui_usdcBalance :: string

text \<open>
  A handler is the sequence of state setters it calls, in order; the state after is the
  state with the setters applied.
\<close>

datatype action =
    SetLoading bool
  | SetAccount cached_account
  | SetStatus string
  | SetRecipientAddress string
  | SetAmount string

fun set_state :: "ui_state \<Rightarrow> action \<Rightarrow> ui_state" where
  "set_state s (SetLoading b) = s\<lparr>ui_loading := b\<rparr>"
| "set_state s (SetAccount a) = s\<lparr>ui_account := Some a\<rparr>"
| "set_state s (SetStatus m) = s\<lparr>ui_status := m\<rparr>"
| "set_state s (SetRecipientAddress r) = s\<lparr>ui_recipientAddress := r\<rparr>"
| "set_state s (SetAmount a) = s\<lparr>ui_amount := a\<rparr>"

definition after :: "ui_state \<Rightarrow> action list \<Rightarrow> ui_state" where
  "after s acts = foldl set_state s acts"

text \<open>The body of the \<open>try\<close> block of \<open>createAccount\<close>, up to the stored credential.\<close>

definition createAccount_try :: "'w env \<Rightarrow> 'w \<Rightarrow> error + cached_account" where
  "createAccount_try env w =
     (let privateKey = generatePrivateKey env
      in bind (privateKeyToAccount env privateKey) (\<lambda>owner.
         bind (toEcdsaKernelSmartAccount env w [owner] ''0.3.1'') (\<lambda>smartAccount.
         Inr \<lparr>acc_address = sa_address smartAccount, acc_owner = owner_address owner,
              acc_privateKey = ''0x'' @ drop 2 privateKey\<rparr>)))"

definition createAccount :: "'w env \<Rightarrow> 'w \<Rightarrow> action list" where
  "createAccount env w =
     [SetLoading True, SetStatus ''Creating smart account...''] @
     (case createAccount_try env w of
        Inr a \<Rightarrow> [SetAccount a, SetStatus ''Smart account created successfully!'']
      | Inl e \<Rightarrow> [SetStatus (''Error creating smart account: '' @ message e)]) @
     [SetLoading False]"

text \<open>
  The body of the \<open>try\<close> block of \<open>transfer\<close>, up to the executor's result: the
  amount is converted first, then \<open>account.privateKey\<close> is read (a TypeError when no
  account is cached), then the executor is called.
\<close>

definition transfer_try :: "'w env \<Rightarrow> 'w \<Rightarrow> ui_state \<Rightarrow> error + 'w transfer_run" where
  "transfer_try env w s =
     bind (amountInWei (ui_amount s)) (\<lambda>amountInWei.
     bind (case ui_account s of
             None \<Rightarrow> Inl (TypeError ''Cannot read properties of null'')
           | Some a \<Rightarrow> Inr (acc_privateKey a)) (\<lambda>privateKey.
     transferUSDC env w privateKey (ui_recipientAddress s) amountInWei))"

definition transfer :: "'w env \<Rightarrow> 'w \<Rightarrow> ui_state \<Rightarrow> action list" where
  "transfer env w s =
     [SetLoading True, SetStatus ''Initiating transfer...''] @
     (case transfer_try env w s of
        Inr run \<Rightarrow>
          if success (run_receipt run)
          then [SetStatus ''Transfer completed successfully!'', SetRecipientAddress [],
                SetAmount []]
          else [SetStatus ''Transfer failed. Please try again.'']
      | Inl e \<Rightarrow> [SetStatus (''Error during transfer: '' @ message e)]) @
     [SetLoading False]"

text \<open>A setter of the \<open>loading\<close> flag.\<close>

fun is_SetLoading :: "action \<Rightarrow> bool" where
  "is_SetLoading (SetLoading b) = True"
| "is_SetLoading a = False"

text \<open>
  \<open>disabled={loading}\<close> on the create button and
  \<open>disabled={loading || !recipientAddress || !amount}\<close> on the transfer button.
\<close>

definition create_disabled :: "ui_state \<Rightarrow> bool" where
  "create_disabled s = ui_loading s"

definition transfer_disabled :: "ui_state \<Rightarrow> bool" where
  "transfer_disabled s = (ui_loading s \<or> ui_recipientAddress s = [] \<or> ui_amount s = [])"

section \<open>A test double of the collaborators\<close>

text \<open>
  The chain is the list of USDC balances. The paymaster reports the surcharge \<open>charge\<close>
  (a hex string), the bundler estimates \<open>postOp\<close> for the post-op gas limit, and an
  executed operation moves the amount to the recipient and a fee of 100000 to the paymaster.
\<close>

definition usdc_of :: "(string \<times> int) list \<Rightarrow> string \<Rightarrow> int" where
  "usdc_of w a = (case map_of w a of None \<Rightarrow> 0 | Some b \<Rightarrow> b)"

definition test_execute :: "(string \<times> int) list \<Rightarrow> user_operation \<Rightarrow> (string \<times> int) list" where
  "test_execute w op =
     (case op_calls op of
        [] \<Rightarrow> w
      | c # _ \<Rightarrow>
          let sender = sa_address (op_account op);
              w1 = (sender, usdc_of w sender - snd (call_args c) - 100000) # w;
              w2 = (fst (call_args c), usdc_of w1 (fst (call_args c)) + snd (call_args c)) # w1
          in (op_paymaster op, usdc_of w2 (op_paymaster op) + 100000) # w2)"

definition test_env :: "string \<Rightarrow> int \<Rightarrow> bool \<Rightarrow> (string \<times> int) list env" where
  "test_env charge postOp ok =
     \<lparr>randomPrivateKey = replicate 32 17,
      privateKeyToAccount = (\<lambda>k.
        if length k = 66 \<and> take 2 k = ''0x''
        then Inr \<lparr>owner_address = ''0x'' @ take 40 (drop 2 k), owner_privateKey = k\<rparr>
        else Inl (Error ''invalid private key'')),
      toEcdsaKernelSmartAccount = (\<lambda>w owners version.
        Inr \<lparr>sa_address = ''0x'' @ take 40 (concat (map (\<lambda>x. rev (drop 2 (owner_address x))) owners)
                              @ replicate 40 (CHR ''0'')),
             sa_owners = owners, sa_version = version\<rparr>),
      signTypedData = (\<lambda>account signData. Inr ''0xc0ffee6492''),
      parseErc6492Signature = (\<lambda>sig. Inr (take 8 sig)),
      call_additionalGasCharge = (\<lambda>w to. Inr (Some (Some charge))),
      getUserOperationGasPrice = (\<lambda>w. Inr (''0x5f5e100'', ''0x0'')),
      estimateUserOperationGas = (\<lambda>w req.
        Inr \<lparr>callGasLimit = 80000, preVerificationGas = 50000, verificationGasLimit = 100000,
             paymasterPostOpGasLimit = postOp, paymasterVerificationGasLimit = 60000\<rparr>),
      sendUserOperation = (\<lambda>w op. Inr (''0xa1'', test_execute w op)),
      waitForUserOperationReceipt = (\<lambda>w h.
        Inr (\<lparr>success = ok, actualGasUsed = 200000, actualGasCost = 20000000000000,
              transactionHash = ''0xb2'', gasUsed = 250000\<rparr>, w)),
      balanceOf = (\<lambda>w token a. Inr (usdc_of w a))\<rparr>"

definition test_key :: string where
  "test_key = ''0x'' @ replicate 64 (CHR ''1'')"

definition test_sender :: string where
  "test_sender = ''0x'' @ replicate 40 (CHR ''1'')"

definition test_recipient :: string where
  "test_recipient = ''0x'' @ replicate 40 (CHR ''2'')"

definition test_chain :: "(string \<times> int) list" where
  "test_chain = [(test_sender, 20000000)]"

definition test_state :: ui_state where
  "test_state =
     \<lparr>ui_loading = False,
      ui_account = Some \<lparr>acc_address = test_sender, acc_owner = test_sender,
                        acc_privateKey = test_key\<rparr>,
      ui_balance = [], ui_recipientAddress = test_recipient, ui_amount = ''10.5'',
      ui_status = [], ui_usdcBalance = ''0.00''\<rparr>"




section \<open>Auxiliary facts\<close>

lemma bind_Inr_iff: "bind m f = Inr y \<longleftrightarrow> (\<exists>x. m = Inr x \<and> f x = Inr y)"
  by (cases m) (simp_all add: bind_def)

subsection \<open>Conversions between bigints and Numbers below \<open>2 ^ 53\<close> are exact\<close>

lemma bits_nonneg: "0 \<le> bits n"
  by (induction n rule: bits.induct) (simp add: bits.simps)

lemma bits_pos: "0 < n \<Longrightarrow> 1 \<le> bits n"
  using bits_nonneg [of "n div 2"] by (simp add: bits.simps [of n])

lemma bits_le: "n < 2 ^ k \<Longrightarrow> bits n \<le> int k"
proof (induction k arbitrary: n)
  case 0
  then show ?case by (simp add: bits.simps [of n])
next
  case (Suc k)
  have "n div 2 < 2 ^ k" using Suc.prems by simp
  then have "bits (n div 2) \<le> int k" by (rule Suc.IH)
  then show ?case by (simp add: bits.simps [of n])
qed

lemma bits_1: "bits 1 = 1"
  by (simp add: bits.simps [of 1] bits.simps [of 0])

lemma nearest_even_1: "nearest_even a 1 = a"
  by (simp add: nearest_even_def)

lemma binade_1_bounds:
  assumes "0 < n" "n < 2 ^ 53"
  shows "- 1 \<le> binade n 1" "binade n 1 \<le> 52"
proof -
  have "1 \<le> bits n" using assms(1) by (rule bits_pos)
  moreover have "bits n \<le> 53" using bits_le [OF assms(2)] by simp
  ultimately show "- 1 \<le> binade n 1" "binade n 1 \<le> 52"
    by (simp_all add: binade_def bits_1 Let_def)
qed

lemma to_double_exact:
  assumes "0 < n" "n < 2 ^ 53"
  shows "\<exists>k. to_double neg n 1 = Finite ((if neg then - n else n) * 2 ^ k) (- int k)"
proof -
  define e where "e = max (binade n 1 - 52) (- 1074)"
  have e: "e \<le> 0" "- 53 \<le> e"
    using binade_1_bounds [OF assms] by (simp_all add: e_def)
  show ?thesis
  proof (cases "e = 0")
    case True
    then have "to_double neg n 1 = Finite (if neg then - n else n) 0"
      using assms(1) by (simp add: to_double_def e_def [symmetric] nearest_even_1 Let_def)
    then show ?thesis by (intro exI [of _ 0]) simp
  next
    case False
    then have "e < 0" using e by simp
    then have "to_double neg n 1 =
        Finite (if neg then - (n * 2 ^ nat (- e)) else n * 2 ^ nat (- e)) e"
      using assms(1) by (simp add: to_double_def e_def [symmetric] nearest_even_1 Let_def)
    then show ?thesis using \<open>e < 0\<close> by (intro exI [of _ "nat (- e)"]) simp
  qed
qed

lemma Number_exact:
  assumes "\<bar>n\<bar> < 2 ^ 53"
  shows "\<exists>k. Number n = Finite (n * 2 ^ k) (- int k)"
proof (cases "n = 0")
  case True
  then show ?thesis by (intro exI [of _ 0]) (simp add: Number_def to_double_def)
next
  case False
  then have "0 < \<bar>n\<bar>" by simp
  from to_double_exact [OF this assms, of "n < 0"] show ?thesis
    by (auto simp: Number_def)
qed

lemma finite_le_scaled:
  "finite_le (a * 2 ^ j) (- int j) (b * 2 ^ k) (- int k) \<longleftrightarrow> a \<le> b"
proof -
  have j: "a * 2 ^ j * 2 ^ (max j k - j) = a * 2 ^ max j k"
    by (simp add: power_add [symmetric] mult.assoc)
  have k: "b * 2 ^ k * 2 ^ (max j k - k) = b * 2 ^ max j k"
    by (simp add: power_add [symmetric] mult.assoc)
  have nj: "nat (- int j - min (- int j) (- int k)) = max j k - j" by simp
  have nk: "nat (- int k - min (- int j) (- int k)) = max j k - k" by simp
  show ?thesis
    unfolding finite_le_def Let_def nj nk j k by simp
qed

lemma BigInt_scaled: "BigInt (Finite (n * 2 ^ k) (- int k)) = Inr n"
proof (cases k)
  case 0
  then show ?thesis by simp
next
  case (Suc j)
  have neg: "\<not> (0::int) \<le> - int k" using Suc by simp
  have n: "nat (- (- int k)) = k" by simp
  show ?thesis unfolding BigInt.simps n using neg by simp
qed

lemma raised_limit_exact:
  assumes "\<bar>a\<bar> < 2 ^ 53" "\<bar>b\<bar> < 2 ^ 53"
  shows "BigInt (Math_max (Number a) (Number b)) = Inr (max a b)"
proof -
  obtain j where j: "Number a = Finite (a * 2 ^ j) (- int j)"
    using Number_exact [OF assms(1)] by blast
  obtain k where k: "Number b = Finite (b * 2 ^ k) (- int k)"
    using Number_exact [OF assms(2)] by blast
  show ?thesis
    unfolding j k by (simp add: finite_le_scaled BigInt_scaled max_def)
qed

subsection \<open>The packed paymaster data\<close>

lemma numberToHex_reserved: "numberToHex 1 0 = Inr ''0x00''"
  by code_simp

lemma numberToHex_ceiling:
  "numberToHex 32 MAX_GAS_USDC = Inr (''0x'' @ replicate 58 (CHR ''0'') @ ''0f4240'')"
  by code_simp

lemma encode_usdc:
  "encode (Address ARBITRUM_SEPOLIA_USDC) =
     Inr (''0x'' @ toLowerCase (drop 2 ARBITRUM_SEPOLIA_USDC))"
  by code_simp

lemma remove0x_prefixed: "remove0x (''0x'' @ h) = h"
  by simp

lemma encodePacked_paymasterData:
  "encodePacked [Uint 1 0, Address ARBITRUM_SEPOLIA_USDC, Uint 32 MAX_GAS_USDC, Bytes sig] =
     Inr (''0x'' @ ''00'' @ toLowerCase (drop 2 ARBITRUM_SEPOLIA_USDC) @
          (replicate 58 (CHR ''0'') @ ''0f4240'') @ remove0x sig)"
proof -
  have "encode_all [Uint 1 0, Address ARBITRUM_SEPOLIA_USDC, Uint 32 MAX_GAS_USDC, Bytes sig] =
      Inr [''0x'' @ ''00'', ''0x'' @ toLowerCase (drop 2 ARBITRUM_SEPOLIA_USDC),
           ''0x'' @ replicate 58 (CHR ''0'') @ ''0f4240'', sig]"
    using numberToHex_reserved numberToHex_ceiling encode_usdc
    by (simp add: bind_def)
  then show ?thesis
    unfolding encodePacked_def concatHex_def
    by (simp only: bind_def sum.case foldl.simps remove0x_prefixed append_Nil append_assoc)
qed

lemma ceiling_decodes:
  "hexToBigInt (''0x'' @ replicate 58 (CHR ''0'') @ ''0f4240'') = Inr MAX_GAS_USDC"
  by code_simp

lemma token_length: "length (toLowerCase (drop 2 ARBITRUM_SEPOLIA_USDC)) = 40"
  by (simp add: toLowerCase_def ARBITRUM_SEPOLIA_USDC_def)

subsection \<open>What a run that reaches the submission has done\<close>

lemma prepare_userOp_Inr:
  assumes "prepare_userOp env w privateKey recipientAddress amount = Inr p"
  shows "\<exists>owner wrapped r feeMax feePriority.
     create_accounts env w privateKey = Inr (owner, prep_account p) \<and>
     eip2612Permit ARBITRUM_SEPOLIA_USDC (sa_address (prep_account p))
       ARBITRUM_SEPOLIA_PAYMASTER MAX_GAS_USDC = Inr (prep_permit p) \<and>
     signTypedData env (prep_account p) (prep_permit p, ''Permit'') = Inr wrapped \<and>
     parseErc6492Signature env wrapped = Inr (prep_permitSignature p) \<and>
     encodePacked [Uint 1 0, Address ARBITRUM_SEPOLIA_USDC, Uint 32 MAX_GAS_USDC,
                   Bytes (prep_permitSignature p)] = Inr (op_paymasterData (prep_userOp p)) \<and>
     call_additionalGasCharge env w ARBITRUM_SEPOLIA_PAYMASTER = Inr r \<and>
     additionalGasCharge_of r = Inr (prep_additionalGasCharge p) \<and>
     getUserOperationGasPrice env w = Inr (feeMax, feePriority) \<and>
     hexToBigInt feeMax = Inr (op_maxFeePerGas (prep_userOp p)) \<and>
     hexToBigInt feePriority = Inr (op_maxPriorityFeePerGas (prep_userOp p)) \<and>
     estimateUserOperationGas env w
        \<lparr>est_account = prep_account p,
         est_calls = [\<lparr>call_to = ARBITRUM_SEPOLIA_USDC, call_functionName = ''transfer'',
                      call_args = (recipientAddress, amount)\<rparr>],
         est_paymaster = ARBITRUM_SEPOLIA_PAYMASTER,
         est_paymasterData = op_paymasterData (prep_userOp p),
         est_paymasterPostOpGasLimit = prep_additionalGasCharge p,
         est_maxFeePerGas = 1, est_maxPriorityFeePerGas = 1\<rparr> = Inr (prep_estimate p) \<and>
     BigInt (Math_max (Number (paymasterPostOpGasLimit (prep_estimate p)))
                      (Number (prep_additionalGasCharge p))) =
       Inr (op_paymasterPostOpGasLimit (prep_userOp p)) \<and>
     op_account (prep_userOp p) = prep_account p \<and>
     op_calls (prep_userOp p) =
       [\<lparr>call_to = ARBITRUM_SEPOLIA_USDC, call_functionName = ''transfer'',
         call_args = (recipientAddress, amount)\<rparr>] \<and>
     op_paymaster (prep_userOp p) = ARBITRUM_SEPOLIA_PAYMASTER"
  using assms unfolding prepare_userOp_def Let_def
  by (clarsimp simp: bind_Inr_iff split: prod.splits)

lemma transferUSDC_Inr:
  assumes "transferUSDC env w privateKey recipientAddress amount = Inr run"
  shows "\<exists>h w1 b1 b2.
     prepare_userOp env w privateKey recipientAddress amount = Inr (run_prepared run) \<and>
     sendUserOperation env w (prep_userOp (run_prepared run)) = Inr (h, w1) \<and>
     waitForUserOperationReceipt env w1 h = Inr (run_receipt run, run_chain run) \<and>
     balanceOf env (run_chain run) ARBITRUM_SEPOLIA_USDC
       (sa_address (prep_account (run_prepared run))) = Inr b1 \<and>
     balanceOf env (run_chain run) ARBITRUM_SEPOLIA_USDC
       (sa_address (prep_account (run_prepared run))) = Inr b2 \<and>
     run_usdcConsumed run = b1 - b2 - amount"
  using assms unfolding transferUSDC_def Let_def
  by (clarsimp simp: bind_Inr_iff split: prod.splits)

subsection \<open>The test double at work\<close>

lemma test_prepare:
  "case prepare_userOp (test_env ''0x7530'' 20000 True) test_chain test_key test_recipient
          10500000 of
     Inl e \<Rightarrow> False
   | Inr p \<Rightarrow>
       sa_address (prep_account p) = test_sender \<and>
       prep_permitSignature p = ''0xc0ffee'' \<and>
       prep_additionalGasCharge p = 30000 \<and>
       paymasterPostOpGasLimit (prep_estimate p) = 20000 \<and>
       op_paymasterPostOpGasLimit (prep_userOp p) = 30000"
  by code_simp

lemma test_run:
  "case transferUSDC (test_env ''0x7530'' 20000 True) test_chain test_key test_recipient
          10500000 of
     Inl e \<Rightarrow> False
   | Inr run \<Rightarrow>
       success (run_receipt run) \<and>
       usdc_of test_chain test_sender = 20000000 \<and>
       usdc_of (run_chain run) test_sender = 9400000"
  by code_simp


lemma test_run_zero:
  "case transferUSDC (test_env ''0x7530'' 20000 True) test_chain test_key test_recipient 0 of
     Inl e \<Rightarrow> False
   | Inr run \<Rightarrow>
       map call_args (op_calls (prep_userOp (run_prepared run))) = [(test_recipient, 0)]"
  by code_simp

lemma test_run_failed:
  "case transferUSDC (test_env ''0x7530'' 20000 False) test_chain test_key test_recipient
          10500000 of
     Inl e \<Rightarrow> False
   | Inr run \<Rightarrow> \<not> success (run_receipt run)"
  by code_simp

subsection \<open>Conversions of particular amounts\<close>

lemma amountInWei_0: "amountInWei ''0'' = Inr 0"
  by code_simp

lemma amountInWei_10_5: "amountInWei ''10.5'' = Inr 10500000"
  by code_simp

lemma amountInWei_4_1: "amountInWei ''4.1'' = Inl (RangeError not_an_integer)"
  by code_simp

lemma transfer_try_test_state:
  "transfer_try env test_chain test_state =
     transferUSDC env test_chain test_key test_recipient 10500000"
  using amountInWei_10_5 by (simp add: transfer_try_def bind_def test_state_def)

subsection \<open>Positions in the packed paymaster data\<close>

lemma paymasterData_eq:
  assumes "prepare_userOp env w privateKey recipientAddress amount = Inr p"
  shows "op_paymasterData (prep_userOp p) =
           (''0x'' @ ''00'' @ toLowerCase (drop 2 ARBITRUM_SEPOLIA_USDC)) @
           (replicate 58 (CHR ''0'') @ ''0f4240'') @ remove0x (prep_permitSignature p)"
proof -
  from prepare_userOp_Inr [OF assms] have
    "encodePacked [Uint 1 0, Address ARBITRUM_SEPOLIA_USDC, Uint 32 MAX_GAS_USDC,
                   Bytes (prep_permitSignature p)] = Inr (op_paymasterData (prep_userOp p))"
    by blast
  then show ?thesis unfolding encodePacked_paymasterData by simp
qed

lemma head_length: "length (''0x'' @ ''00'' @ toLowerCase (drop 2 ARBITRUM_SEPOLIA_USDC)) = 44"
  using token_length by simp

lemma ceiling_length: "length (replicate 58 (CHR ''0'') @ ''0f4240'') = 64"
  by simp

lemma drop_two_parts: "length a = m \<Longrightarrow> length b = n \<Longrightarrow> drop (m + n) (a @ b @ c) = c"
  by simp

lemma take_second_part:
  "length a = m \<Longrightarrow> length b = n \<Longrightarrow> take n (drop m (a @ b @ c)) = b"
  by simp

section \<open>The conversion of the amount field\<close>

lemma product_4_1:
  "number_times (parseFloat ''4.1'') (Finite 1000000 0) = Finite 8804682956799999 (- 31)"
  by code_simp

text \<open>
  C1. The spec: the conversion of a valid amount string \<open>a\<close> yields
  \<open>round(a * 10^6)\<close>, and \<open>10.5\<close> gives 10500000. The code multiplies the double
  nearest to the amount by 1000000 and converts the rounded product with \<open>BigInt\<close>. For
  \<open>4.1\<close> the product is \<open>8804682956799999 / 2^31 = 4099999.9999999995\<close>, not an
  integer: \<open>BigInt\<close> throws, the handler reports the error and the executor is never
  called. For \<open>10.5\<close> the result is 10500000.
\<close>

theorem amountInWei_4_1_throws:
  "amountInWei ''4.1'' = Inl (RangeError not_an_integer)
   \<and> transfer env w (s\<lparr>ui_amount := ''4.1''\<rparr>) =
       [SetLoading True, SetStatus ''Initiating transfer...'',
        SetStatus (''Error during transfer: '' @ not_an_integer), SetLoading False]
   \<and> amountInWei ''10.5'' = Inr 10500000"
proof -
  note a = amountInWei_4_1 and b = amountInWei_10_5
  have "transfer_try env w (s\<lparr>ui_amount := ''4.1''\<rparr>) = Inl (RangeError not_an_integer)"
    by (simp add: transfer_try_def a bind_def)
  then show ?thesis using a b by (simp add: transfer_def)
qed

section \<open>The USDC consumed\<close>

text \<open>
  C2. The spec: USDC consumed is balance before the submission minus balance after the
  receipt minus the amount, and is not negative. In the code both balances are read after
  the receipt, one read after the other on the same chain state, so that in every run that
  returns the value is \<open>b - b - amount\<close>, the negated amount.
\<close>

theorem usdcConsumed_is_minus_amount:
  assumes "transferUSDC env w privateKey recipientAddress amount = Inr run"
  shows "(\<exists>b. balanceOf env (run_chain run) ARBITRUM_SEPOLIA_USDC
                (sa_address (prep_account (run_prepared run))) = Inr b
              \<and> run_usdcConsumed run = b - b - amount)
         \<and> run_usdcConsumed run = - amount"
proof -
  from transferUSDC_Inr [OF assms] obtain b1 b2 where
    b1: "balanceOf env (run_chain run) ARBITRUM_SEPOLIA_USDC
           (sa_address (prep_account (run_prepared run))) = Inr b1"
    and b2: "balanceOf env (run_chain run) ARBITRUM_SEPOLIA_USDC
           (sa_address (prep_account (run_prepared run))) = Inr b2"
    and c: "run_usdcConsumed run = b1 - b2 - amount"
    by blast
  from b1 b2 have "b1 = b2" by simp
  with b1 c show ?thesis by simp
qed

text \<open>
  On the test double: 20 USDC before, 10.5 USDC sent, fee 0.1 USDC, 9.4 USDC after. The
  spec's value is 100000; the run computes -10500000.
\<close>

theorem usdcConsumed_test_run:
  "\<exists>run. transferUSDC (test_env ''0x7530'' 20000 True) test_chain test_key test_recipient
            10500000 = Inr run
     \<and> success (run_receipt run)
     \<and> run_usdcConsumed run = - 10500000
     \<and> usdc_of test_chain test_sender - usdc_of (run_chain run) test_sender - 10500000 = 100000"
proof -
  obtain run where run:
    "transferUSDC (test_env ''0x7530'' 20000 True) test_chain test_key test_recipient
       10500000 = Inr run"
    and ok: "success (run_receipt run)"
    and bal: "usdc_of test_chain test_sender = 20000000"
       "usdc_of (run_chain run) test_sender = 9400000"
    using test_run by (auto split: sum.splits)
  from usdcConsumed_is_minus_amount [OF run] have "run_usdcConsumed run = - 10500000"
    by simp
  with run ok bal show ?thesis by simp
qed

section \<open>The paymaster post-op gas limit\<close>

text \<open>
  C3, as the spec states it, fails: the two bigints are compared as Numbers. With an
  estimate of 0 and a surcharge of \<open>2^53 + 1 = 9007199254740993\<close>, the surcharge becomes
  the double \<open>2^53\<close>, and the submitted limit is 9007199254740992, below the surcharge.
\<close>

theorem postOp_limit_below_surcharge:
  "map_sum id (paymasterPostOpGasLimit \<circ> prep_estimate)
     (prepare_userOp (test_env ''0x20000000000001'' 0 True) test_chain test_key test_recipient
        10500000) = Inr 0
   \<and> map_sum id prep_additionalGasCharge
     (prepare_userOp (test_env ''0x20000000000001'' 0 True) test_chain test_key test_recipient
        10500000) = Inr 9007199254740993
   \<and> map_sum id (op_paymasterPostOpGasLimit \<circ> prep_userOp)
     (prepare_userOp (test_env ''0x20000000000001'' 0 True) test_chain test_key test_recipient
        10500000) = Inr 9007199254740992"
  by code_simp

text \<open>
  C3, amended: whenever the bundler's estimate and the paymaster's surcharge are both
  below \<open>2^53\<close> in absolute value, the post-op gas limit of the submitted operation is
  the larger of the two, and so at least the surcharge.
\<close>

theorem postOp_limit_is_max:
  assumes "prepare_userOp env w privateKey recipientAddress amount = Inr p"
    and "\<bar>paymasterPostOpGasLimit (prep_estimate p)\<bar> < 2 ^ 53"
    and "\<bar>prep_additionalGasCharge p\<bar> < 2 ^ 53"
  shows "op_paymasterPostOpGasLimit (prep_userOp p) =
           max (paymasterPostOpGasLimit (prep_estimate p)) (prep_additionalGasCharge p)
         \<and> prep_additionalGasCharge p \<le> op_paymasterPostOpGasLimit (prep_userOp p)"
proof -
  from prepare_userOp_Inr [OF assms(1)] have
    "BigInt (Math_max (Number (paymasterPostOpGasLimit (prep_estimate p)))
                      (Number (prep_additionalGasCharge p))) =
       Inr (op_paymasterPostOpGasLimit (prep_userOp p))"
    by blast
  with raised_limit_exact [OF assms(2,3)]
  have "op_paymasterPostOpGasLimit (prep_userOp p) =
          max (paymasterPostOpGasLimit (prep_estimate p)) (prep_additionalGasCharge p)"
    by simp
  then show ?thesis by simp
qed

theorem postOp_limit_test_run:
  "\<exists>p. prepare_userOp (test_env ''0x7530'' 20000 True) test_chain test_key test_recipient
          10500000 = Inr p
     \<and> \<bar>paymasterPostOpGasLimit (prep_estimate p)\<bar> < 2 ^ 53
     \<and> \<bar>prep_additionalGasCharge p\<bar> < 2 ^ 53
     \<and> paymasterPostOpGasLimit (prep_estimate p) = 20000
     \<and> prep_additionalGasCharge p = 30000
     \<and> op_paymasterPostOpGasLimit (prep_userOp p) = max 20000 30000"
proof -
  obtain p where p:
    "prepare_userOp (test_env ''0x7530'' 20000 True) test_chain test_key test_recipient
       10500000 = Inr p"
    and v: "prep_additionalGasCharge p = 30000"
       "paymasterPostOpGasLimit (prep_estimate p) = 20000"
    using test_prepare by (auto split: sum.splits)
  have h1: "\<bar>paymasterPostOpGasLimit (prep_estimate p)\<bar> < 2 ^ 53" using v by simp
  have h2: "\<bar>prep_additionalGasCharge p\<bar> < 2 ^ 53" using v by simp
  from postOp_limit_is_max [OF p h1 h2] p v h1 h2 show ?thesis by auto
qed

section \<open>The permit signature and the paymaster data\<close>

text \<open>
  C4. In every run that reaches the submission, the permit signature packed into the
  paymaster data is the result of \<open>parseErc6492Signature\<close> on the signature that
  \<open>signTypedData\<close> returned for the permit with primary type \<open>Permit\<close>: it is what
  follows the \<open>0x\<close> prefix, the reserved byte, the 20 bytes of the token address and the
  32 bytes of the ceiling (two hex digits a byte), without its own \<open>0x\<close> prefix.
\<close>

theorem packed_signature_is_unwrapped:
  assumes "prepare_userOp env w privateKey recipientAddress amount = Inr p"
  shows "\<exists>owner wrapped.
           create_accounts env w privateKey = Inr (owner, prep_account p)
           \<and> signTypedData env (prep_account p) (prep_permit p, ''Permit'') = Inr wrapped
           \<and> parseErc6492Signature env wrapped = Inr (prep_permitSignature p)
           \<and> drop (2 + 2 * (1 + 20 + 32)) (op_paymasterData (prep_userOp p)) =
               remove0x (prep_permitSignature p)"
proof -
  from prepare_userOp_Inr [OF assms] obtain owner wrapped where
    "create_accounts env w privateKey = Inr (owner, prep_account p)"
    "signTypedData env (prep_account p) (prep_permit p, ''Permit'') = Inr wrapped"
    "parseErc6492Signature env wrapped = Inr (prep_permitSignature p)"
    by blast
  moreover have "drop (44 + 64) (op_paymasterData (prep_userOp p)) =
      remove0x (prep_permitSignature p)"
    unfolding paymasterData_eq [OF assms]
    by (rule drop_two_parts [OF head_length ceiling_length])
  ultimately show ?thesis by auto
qed

text \<open>On the test double the wrapped signature \<open>0xc0ffee6492\<close> unwraps to \<open>0xc0ffee\<close>.\<close>

theorem packed_signature_test_run:
  "\<exists>p. prepare_userOp (test_env ''0x7530'' 20000 True) test_chain test_key test_recipient
          10500000 = Inr p
     \<and> signTypedData (test_env ''0x7530'' 20000 True) (prep_account p) (prep_permit p, ''Permit'')
         = Inr ''0xc0ffee6492''
     \<and> prep_permitSignature p = ''0xc0ffee''
     \<and> drop 108 (op_paymasterData (prep_userOp p)) = ''c0ffee''"
proof -
  obtain p where p:
    "prepare_userOp (test_env ''0x7530'' 20000 True) test_chain test_key test_recipient
       10500000 = Inr p"
    and s: "prep_permitSignature p = ''0xc0ffee''"
    using test_prepare by (auto split: sum.splits)
  have "signTypedData (test_env ''0x7530'' 20000 True) (prep_account p) (prep_permit p, ''Permit'')
         = Inr ''0xc0ffee6492''"
    by (simp add: test_env_def)
  with packed_signature_is_unwrapped [OF p] p s show ?thesis by auto
qed

text \<open>
  C5. The paymaster data is, in order: one reserved byte \<open>00\<close>, the token address (20
  bytes, in lower case), the sponsorship ceiling as a 32-byte big-endian unsigned integer,
  and the permit signature.
\<close>

theorem paymasterData_layout:
  assumes "prepare_userOp env w privateKey recipientAddress amount = Inr p"
  shows "op_paymasterData (prep_userOp p) =
           ''0x'' @ ''00'' @ toLowerCase (drop 2 ARBITRUM_SEPOLIA_USDC) @
           (replicate 58 (CHR ''0'') @ ''0f4240'') @ remove0x (prep_permitSignature p)
         \<and> length (toLowerCase (drop 2 ARBITRUM_SEPOLIA_USDC)) = 2 * 20
         \<and> length (replicate 58 (CHR ''0'') @ ''0f4240'') = 2 * 32
         \<and> hexToBigInt (''0x'' @ replicate 58 (CHR ''0'') @ ''0f4240'') = Inr MAX_GAS_USDC"
  using paymasterData_eq [OF assms] token_length ceiling_decodes by simp

theorem paymasterData_test_run:
  "\<exists>p. prepare_userOp (test_env ''0x7530'' 20000 True) test_chain test_key test_recipient
          10500000 = Inr p
     \<and> op_paymasterData (prep_userOp p) =
         ''0x'' @ ''00'' @ ''75faf114eafb1bdbe2f0316df893fd58ce46aa4d'' @
         ''00000000000000000000000000000000000000000000000000000000000f4240'' @ ''c0ffee''"
proof -
  obtain p where p:
    "prepare_userOp (test_env ''0x7530'' 20000 True) test_chain test_key test_recipient
       10500000 = Inr p"
    and s: "prep_permitSignature p = ''0xc0ffee''"
    using test_prepare by (auto split: sum.splits)
  have t: "toLowerCase (drop 2 ARBITRUM_SEPOLIA_USDC) = ''75faf114eafb1bdbe2f0316df893fd58ce46aa4d''"
    by code_simp
  have c: "replicate 58 (CHR ''0'') @ ''0f4240'' =
      ''00000000000000000000000000000000000000000000000000000000000f4240''"
    by code_simp
  from paymasterData_layout [OF p] have
    "op_paymasterData (prep_userOp p) =
           ''0x'' @ ''00'' @ toLowerCase (drop 2 ARBITRUM_SEPOLIA_USDC) @
           (replicate 58 (CHR ''0'') @ ''0f4240'') @ remove0x (prep_permitSignature p)"
    by blast
  then show ?thesis unfolding t c s using p by simp
qed

text \<open>
  C6. The value of the permit that is signed and the ceiling packed into the paymaster data
  (the 32 bytes after the reserved byte and the token address) are both
  \<open>MAX_GAS_USDC = 1000000\<close>, so the permit never authorises more than the ceiling.
\<close>

theorem ceiling_is_one_usdc:
  assumes "prepare_userOp env w privateKey recipientAddress amount = Inr p"
  shows "MAX_GAS_USDC = 1000000
         \<and> permit_value (prep_permit p) = MAX_GAS_USDC
         \<and> hexToBigInt (''0x'' @ take (2 * 32) (drop (2 + 2 * (1 + 20))
              (op_paymasterData (prep_userOp p)))) = Inr MAX_GAS_USDC
         \<and> permit_value (prep_permit p) \<le> 1000000
         \<and> (\<exists>wrapped. signTypedData env (prep_account p) (prep_permit p, ''Permit'') = Inr wrapped)"
proof -
  from prepare_userOp_Inr [OF assms] obtain wrapped where
    permit: "eip2612Permit ARBITRUM_SEPOLIA_USDC (sa_address (prep_account p))
       ARBITRUM_SEPOLIA_PAYMASTER MAX_GAS_USDC = Inr (prep_permit p)"
    and signed: "signTypedData env (prep_account p) (prep_permit p, ''Permit'') = Inr wrapped"
    by blast
  from permit have "prep_permit p =
      \<lparr>permit_owner = sa_address (prep_account p),
       permit_spender = ARBITRUM_SEPOLIA_PAYMASTER, permit_value = MAX_GAS_USDC\<rparr>"
    by (simp add: eip2612Permit_def)
  then have v: "permit_value (prep_permit p) = MAX_GAS_USDC"
    by simp
  have "take 64 (drop 44 (op_paymasterData (prep_userOp p))) =
      replicate 58 (CHR ''0'') @ ''0f4240''"
    unfolding paymasterData_eq [OF assms]
    by (rule take_second_part [OF head_length ceiling_length])
  then have "hexToBigInt (''0x'' @ take 64 (drop 44 (op_paymasterData (prep_userOp p)))) =
      Inr MAX_GAS_USDC"
    using ceiling_decodes by simp
  with v signed show ?thesis by (auto simp: MAX_GAS_USDC_def)
qed

theorem ceiling_test_run:
  "\<exists>p. prepare_userOp (test_env ''0x7530'' 20000 True) test_chain test_key test_recipient
          10500000 = Inr p
     \<and> permit_value (prep_permit p) = 1000000
     \<and> hexToBigInt (''0x'' @ take 64 (drop 44 (op_paymasterData (prep_userOp p)))) = Inr 1000000"
proof -
  obtain p where p:
    "prepare_userOp (test_env ''0x7530'' 20000 True) test_chain test_key test_recipient
       10500000 = Inr p"
    using test_prepare by (auto split: sum.splits)
  from ceiling_is_one_usdc [OF p] p show ?thesis by (auto simp: MAX_GAS_USDC_def)
qed

section \<open>The page's handlers\<close>

text \<open>
  C7. For the amount \<open>0\<close>: the transfer button is disabled or the conversion gives 0.
  The second holds: the button tests the fields for emptiness only, the conversion of
  \<open>0\<close> gives the bigint 0, and the handler calls the executor with amount 0.
\<close>

theorem zero_amount_converts_to_zero:
  assumes "ui_amount s = ''0''"
  shows "(transfer_disabled s \<or> amountInWei (ui_amount s) = Inr 0)
         \<and> transfer_disabled s = (ui_loading s \<or> ui_recipientAddress s = [])
         \<and> transfer_try env w s =
             bind (case ui_account s of
                     None \<Rightarrow> Inl (TypeError ''Cannot read properties of null'')
                   | Some a \<Rightarrow> Inr (acc_privateKey a))
               (\<lambda>privateKey. transferUSDC env w privateKey (ui_recipientAddress s) 0)"
  using assms amountInWei_0
  by (simp add: transfer_disabled_def transfer_try_def bind_def)

text \<open>
  On the test double the button is enabled, and the executor, which checks neither amount
  nor recipient, submits a transfer of 0.
\<close>

theorem zero_amount_test_run:
  "ui_amount (test_state\<lparr>ui_amount := ''0''\<rparr>) = ''0''
   \<and> \<not> transfer_disabled (test_state\<lparr>ui_amount := ''0''\<rparr>)
   \<and> amountInWei (ui_amount (test_state\<lparr>ui_amount := ''0''\<rparr>)) = Inr 0
   \<and> (\<exists>run. transfer_try (test_env ''0x7530'' 20000 True) test_chain
               (test_state\<lparr>ui_amount := ''0''\<rparr>) = Inr run
          \<and> map call_args (op_calls (prep_userOp (run_prepared run))) = [(test_recipient, 0)])"
proof -
  let ?s = "test_state\<lparr>ui_amount := ''0''\<rparr>"
  have a: "ui_amount ?s = ''0''" by simp
  have n: "\<not> (ui_loading ?s \<or> ui_recipientAddress ?s = [])"
    by (simp add: test_state_def test_recipient_def)
  have k: "ui_account ?s = Some \<lparr>acc_address = test_sender, acc_owner = test_sender,
                        acc_privateKey = test_key\<rparr>"
      "ui_recipientAddress ?s = test_recipient"
    by (simp_all add: test_state_def)
  note inst = zero_amount_converts_to_zero [OF a, of "test_env ''0x7530'' 20000 True" test_chain]
  from inst n have d: "\<not> transfer_disabled ?s" and z: "amountInWei (ui_amount ?s) = Inr 0"
    by blast+
  from inst have "transfer_try (test_env ''0x7530'' 20000 True) test_chain ?s =
      transferUSDC (test_env ''0x7530'' 20000 True) test_chain test_key test_recipient 0"
    unfolding k by (simp add: bind_def)
  with test_run_zero have "\<exists>run. transfer_try (test_env ''0x7530'' 20000 True) test_chain ?s = Inr run
          \<and> map call_args (op_calls (prep_userOp (run_prepared run))) = [(test_recipient, 0)]"
    by (auto split: sum.splits)
  with a d z show ?thesis by blast
qed




text \<open>
  C9. The handler \<open>transfer\<close> leaves the cached account and the balances as they were.
  It clears the recipient and amount fields when the executor returns a receipt with
  \<open>success\<close>, and leaves both as they were when the receipt has no \<open>success\<close> or
  when an error is thrown.
\<close>

theorem transfer_clears_fields_iff_success:
  "ui_account (after s (transfer env w s)) = ui_account s
   \<and> ui_balance (after s (transfer env w s)) = ui_balance s
   \<and> ui_usdcBalance (after s (transfer env w s)) = ui_usdcBalance s
   \<and> (\<forall>run. transfer_try env w s = Inr run \<and> success (run_receipt run) \<longrightarrow>
         ui_recipientAddress (after s (transfer env w s)) = []
         \<and> ui_amount (after s (transfer env w s)) = [])
   \<and> (\<forall>run. transfer_try env w s = Inr run \<and> \<not> success (run_receipt run) \<longrightarrow>
         ui_recipientAddress (after s (transfer env w s)) = ui_recipientAddress s
         \<and> ui_amount (after s (transfer env w s)) = ui_amount s)
   \<and> (\<forall>e. transfer_try env w s = Inl e \<longrightarrow>
         ui_recipientAddress (after s (transfer env w s)) = ui_recipientAddress s
         \<and> ui_amount (after s (transfer env w s)) = ui_amount s)"
  by (cases "transfer_try env w s") (simp_all add: transfer_def after_def)

theorem transfer_fields_test_run:
  "ui_recipientAddress (after test_state
       (transfer (test_env ''0x7530'' 20000 True) test_chain test_state)) = []
   \<and> ui_amount (after test_state
       (transfer (test_env ''0x7530'' 20000 True) test_chain test_state)) = []
   \<and> ui_recipientAddress (after test_state
       (transfer (test_env ''0x7530'' 20000 False) test_chain test_state)) = test_recipient
   \<and> ui_amount (after test_state
       (transfer (test_env ''0x7530'' 20000 False) test_chain test_state)) = ''10.5''
   \<and> ui_amount (after (test_state\<lparr>ui_amount := ''4.1''\<rparr>)
       (transfer (test_env ''0x7530'' 20000 True) test_chain
          (test_state\<lparr>ui_amount := ''4.1''\<rparr>))) = ''4.1''"
proof -
  obtain run1 where r1:
    "transfer_try (test_env ''0x7530'' 20000 True) test_chain test_state = Inr run1"
    "success (run_receipt run1)"
    unfolding transfer_try_test_state using test_run by (auto split: sum.splits)
  obtain run2 where r2:
    "transfer_try (test_env ''0x7530'' 20000 False) test_chain test_state = Inr run2"
    "\<not> success (run_receipt run2)"
    unfolding transfer_try_test_state using test_run_failed by (auto split: sum.splits)
  have r3: "transfer_try (test_env ''0x7530'' 20000 True) test_chain
      (test_state\<lparr>ui_amount := ''4.1''\<rparr>) = Inl (RangeError not_an_integer)"
    using amountInWei_4_1 by (simp add: transfer_try_def bind_def)
  have f: "ui_recipientAddress test_state = test_recipient" "ui_amount test_state = ''10.5''"
    by (simp_all add: test_state_def)
  from transfer_clears_fields_iff_success
         [of test_state "test_env ''0x7530'' 20000 True" test_chain] r1
  have a: "ui_recipientAddress (after test_state
       (transfer (test_env ''0x7530'' 20000 True) test_chain test_state)) = []
     \<and> ui_amount (after test_state
       (transfer (test_env ''0x7530'' 20000 True) test_chain test_state)) = []"
    by blast
  from transfer_clears_fields_iff_success
         [of test_state "test_env ''0x7530'' 20000 False" test_chain] r2
  have b: "ui_recipientAddress (after test_state
       (transfer (test_env ''0x7530'' 20000 False) test_chain test_state)) = test_recipient
     \<and> ui_amount (after test_state
       (transfer (test_env ''0x7530'' 20000 False) test_chain test_state)) = ''10.5''"
    unfolding f [symmetric] by blast
  from transfer_clears_fields_iff_success
         [of "test_state\<lparr>ui_amount := ''4.1''\<rparr>" "test_env ''0x7530'' 20000 True" test_chain] r3
  have c: "ui_amount (after (test_state\<lparr>ui_amount := ''4.1''\<rparr>)
       (transfer (test_env ''0x7530'' 20000 True) test_chain
          (test_state\<lparr>ui_amount := ''4.1''\<rparr>))) = ''4.1''"
    by simp
  from a b c show ?thesis by blast
qed

text \<open>
  C10. \<open>createAccount\<close> and \<open>transfer\<close> set \<open>loading\<close> to true first and to false
  last, and not in between, whatever the outcome of the \<open>try\<close> block; afterwards
  \<open>loading\<close> is false, the create button is not disabled, and the transfer button is
  disabled only when a field is empty.
\<close>

theorem loading_always_released:
  "(\<exists>mid. createAccount env w0 = SetLoading True # mid @ [SetLoading False]
           \<and> list_all (\<lambda>a. \<not> is_SetLoading a) mid)
   \<and> (\<exists>mid. transfer env w s = SetLoading True # mid @ [SetLoading False]
           \<and> list_all (\<lambda>a. \<not> is_SetLoading a) mid)
   \<and> \<not> ui_loading (after s (createAccount env w0))
   \<and> \<not> ui_loading (after s (transfer env w s))
   \<and> \<not> create_disabled (after s (createAccount env w0))
   \<and> transfer_disabled (after s (transfer env w s)) =
       (ui_recipientAddress (after s (transfer env w s)) = []
        \<or> ui_amount (after s (transfer env w s)) = [])"
proof -
  have c: "\<exists>mid. createAccount env w0 = SetLoading True # mid @ [SetLoading False]
           \<and> list_all (\<lambda>a. \<not> is_SetLoading a) mid"
    by (cases "createAccount_try env w0") (simp_all add: createAccount_def)
  have t: "\<exists>mid. transfer env w s = SetLoading True # mid @ [SetLoading False]
           \<and> list_all (\<lambda>a. \<not> is_SetLoading a) mid"
    by (cases "transfer_try env w s") (simp_all add: transfer_def)
  have lc: "\<not> ui_loading (after s (createAccount env w0))"
    by (simp add: createAccount_def after_def)
  have lt: "\<not> ui_loading (after s (transfer env w s))"
    by (simp add: transfer_def after_def)
  from lc have "\<not> create_disabled (after s (createAccount env w0))"
    by (simp add: create_disabled_def)
  moreover from lt have "transfer_disabled (after s (transfer env w s)) =
       (ui_recipientAddress (after s (transfer env w s)) = []
        \<or> ui_amount (after s (transfer env w s)) = [])"
    by (simp add: transfer_disabled_def)
  ultimately show ?thesis using c t lc lt by blast
qed

end
